theory Spec2Isabelle
  imports Main "HOL-Library.Word" "HOL-Library.Sublist"
begin

section \<open>Shared data model (package batch)\<close>

text \<open>
  The package \<^verbatim>\<open>internal/batch\<close> declares the types shared by the dispatcher and the
  providers. Its file is not among the sources; the declarations below are the ones the
  dispatcher and the two GCP providers use, with the field and constant names they use.
\<close>

text \<open>
  Modelled from the spec: the declaration of \<^verbatim>\<open>batch.JobStatus\<close> is missing. The spec lists
  the logical states \<^verbatim>\<open>Unknown, Pending, Running, Completed, Failed, Cancelled\<close>; the
  constructor names are the constants the providers return.
\<close>

datatype JobStatus =
    JobStatusUnknown
  | JobStatusPending
  | JobStatusRunning
  | JobStatusCompleted
  | JobStatusFailed
  | JobStatusCancelled

text \<open>
  Modelled from the spec: the declaration of \<^verbatim>\<open>router.AssignedService\<close> is missing. The
  spec gives three tags, cheap, medium and heavy; the constructor names are the constants
  the dispatcher registers its providers under.
\<close>

datatype AssignedService =
    AssignedServiceCloudTasks
  | AssignedServiceCloudRunJob
  | AssignedServiceCloudBatch

text \<open>
  Go errors. \<^verbatim>\<open>fmt.Errorf\<close> is kept as its format string with its operands, in order:
  an operand is a wrapped error (verb \<^verbatim>\<open>%w\<close>) or a service tier (verb \<^verbatim>\<open>%s\<close>).
  \<open>Opaque\<close> is an error made outside this code (a backend client, a provider), with
  its text.
\<close>

datatype error =
    Opaque string
  | Errorf string "fmt_arg list"
and fmt_arg =
    ArgError error
  | ArgService AssignedService

text \<open>
  Modelled from the spec: the declarations of \<^verbatim>\<open>batch.ResourceRequirements\<close>,
  \<^verbatim>\<open>batch.TaskGroupConfig\<close>, \<^verbatim>\<open>batch.JobConfig\<close> and \<^verbatim>\<open>batch.JobResult\<close> are missing.
  The fields are those the providers read, under the names they read them by; the integer
  fields are unbounded here and converted where the providers convert them. A pointer
  field is an option, and the environment map is a list of pairs in the order the
  provider's \<^verbatim>\<open>range\<close> loop visits it.
\<close>

record ResourceRequirements =
  CPUMillis :: int
  MemoryMiB :: int
  MaxRunDurationSeconds :: int

record TaskGroupConfig =
  TaskCount :: int
  Parallelism :: int

record JobConfig =
  JobID :: string
  ImageURI :: string
  Commands :: "string list"
  ContainerEntrypoint :: string
  EnvVars :: "(string \<times> string) list"
  Resources :: "ResourceRequirements option"
  TaskGroup :: "TaskGroupConfig option"
  MaxRetryCount :: "32 word"
  ServiceAccount :: string

record JobResult =
  CloudResourcePath :: string
  InitialStatus :: JobStatus

text \<open>
  The interface \<^verbatim>\<open>batch.Provider\<close>, as the dispatcher calls it. A method that talks to a
  backend takes the state of the world \<open>'w\<close> and returns it changed, so that calling a
  method twice is visible in the result. A Go function returning \<^verbatim>\<open>(value, error)\<close>
  returns a pair here: an implementation may return any combination.
\<close>

record ('c, 'w) Provider =
  ServiceType :: string
  SubmitJob :: "'c \<Rightarrow> JobConfig \<Rightarrow> 'w \<Rightarrow> (JobResult option \<times> error option) \<times> 'w"
  GetJobStatus :: "'c \<Rightarrow> string \<Rightarrow> 'w \<Rightarrow> (JobStatus \<times> error option) \<times> 'w"
  CancelJob :: "'c \<Rightarrow> string \<Rightarrow> 'w \<Rightarrow> error option \<times> 'w"
  ListJobs :: "'c \<Rightarrow> 'w \<Rightarrow> (string list \<times> error option) \<times> 'w"

section \<open>Router\<close>

text \<open>
  Modelled from the spec: the package \<^verbatim>\<open>internal/router\<close> is missing from the sources.
  The policy is the spec's: fixed thresholds, checked in ascending order, first match wins.
  CPU \<open>\<le>\<close> 500 mCPU and memory \<open>\<le>\<close> 512 MiB and duration \<open>\<le>\<close> 600 s give the Cloud
  Tasks tier; CPU \<open>\<le>\<close> 4000 mCPU and memory \<open>\<le>\<close> 8192 MiB and duration \<open>\<le>\<close> 3600 s give
  the Cloud Run Jobs tier; anything else gives the Cloud Batch tier.
\<close>

definition Router :: "ResourceRequirements \<Rightarrow> AssignedService" where
  "Router r =
     (if CPUMillis r \<le> 500 \<and> MemoryMiB r \<le> 512 \<and> MaxRunDurationSeconds r \<le> 600
      then AssignedServiceCloudTasks
      else if CPUMillis r \<le> 4000 \<and> MemoryMiB r \<le> 8192 \<and> MaxRunDurationSeconds r \<le> 3600
      then AssignedServiceCloudRunJob
      else AssignedServiceCloudBatch)"

section \<open>Dispatcher\<close>

text \<open>
  The registry maps a tier to an interface value; an interface value may be \<^verbatim>\<open>nil\<close>
  (\<open>None\<close>). A lookup in a Go map that is \<^verbatim>\<open>nil\<close> or lacks the key reports
  \<^verbatim>\<open>ok = false\<close>, which is \<open>providers d svc = None\<close>.
\<close>

record ('c, 'w) Dispatcher =
  providers :: "AssignedService \<rightharpoonup> ('c, 'w) Provider option"

text \<open>
  Calling a method on a \<^verbatim>\<open>nil\<close> interface value panics; every other path returns.
\<close>

datatype 'a outcome =
    NilDereference
  | Returns 'a

type_synonym ('c, 'w) Option = "('c, 'w) Dispatcher \<Rightarrow> ('c, 'w) Dispatcher"

definition WithCloudTasks :: "('c, 'w) Provider option \<Rightarrow> ('c, 'w) Option" where
  "WithCloudTasks p = (\<lambda>d. d\<lparr>providers := (providers d)(AssignedServiceCloudTasks \<mapsto> p)\<rparr>)"

definition WithCloudRunJobs :: "('c, 'w) Provider option \<Rightarrow> ('c, 'w) Option" where
  "WithCloudRunJobs p = (\<lambda>d. d\<lparr>providers := (providers d)(AssignedServiceCloudRunJob \<mapsto> p)\<rparr>)"

definition WithCloudBatch :: "('c, 'w) Provider option \<Rightarrow> ('c, 'w) Option" where
  "WithCloudBatch p = (\<lambda>d. d\<lparr>providers := (providers d)(AssignedServiceCloudBatch \<mapsto> p)\<rparr>)"

text \<open>
  The option that registers a provider under a given tier: one of the three above.
\<close>

definition WithProvider :: "AssignedService \<Rightarrow> ('c, 'w) Provider option \<Rightarrow> ('c, 'w) Option" where
  "WithProvider svc p =
     (case svc of
        AssignedServiceCloudTasks \<Rightarrow> WithCloudTasks p
      | AssignedServiceCloudRunJob \<Rightarrow> WithCloudRunJobs p
      | AssignedServiceCloudBatch \<Rightarrow> WithCloudBatch p)"

text \<open>
  The keys a registry can hold, and \<^verbatim>\<open>len(d.providers)\<close>: the number of keys present.
\<close>

definition tiers :: "AssignedService list" where
  "tiers = [AssignedServiceCloudTasks, AssignedServiceCloudRunJob, AssignedServiceCloudBatch]"

definition len_providers :: "('c, 'w) Dispatcher \<Rightarrow> nat" where
  "len_providers d = length (filter (\<lambda>svc. providers d svc \<noteq> None) tiers)"

text \<open>
  \<^verbatim>\<open>New\<close> applies the options in order to an empty registry, refuses an empty result,
  and then logs every entry, calling \<^verbatim>\<open>ServiceType\<close> on each registered value: that
  call panics on a \<^verbatim>\<open>nil\<close> provider. The log lines themselves are not modelled.
\<close>

definition New :: "('c, 'w) Option list \<Rightarrow> (('c, 'w) Dispatcher option \<times> error option) outcome" where
  "New opts =
     (let d = foldl (\<lambda>d opt. opt d) \<lparr>providers = Map.empty\<rparr> opts in
      if len_providers d = 0
      then Returns (None, Some (Errorf ''dispatcher: at least one provider must be configured'' []))
      else if list_ex (\<lambda>svc. providers d svc = Some None) tiers then NilDereference
      else Returns (Some d, None))"

definition ProviderFor ::
  "('c, 'w) Dispatcher \<Rightarrow> AssignedService \<Rightarrow> ('c, 'w) Provider option \<times> error option" where
  "ProviderFor d svc =
     (case providers d svc of
        None \<Rightarrow> (None, Some (Errorf ''dispatcher: no provider registered for service %s'' [ArgService svc]))
      | Some p \<Rightarrow> (p, None))"

definition Dispatcher_SubmitJob ::
  "('c, 'w) Dispatcher \<Rightarrow> 'c \<Rightarrow> AssignedService \<Rightarrow> JobConfig \<Rightarrow> 'w
     \<Rightarrow> (JobResult option \<times> error option) outcome \<times> 'w" where
  "Dispatcher_SubmitJob d ctx assignedService config w =
     (case ProviderFor d assignedService of
        (_, Some err) \<Rightarrow> (Returns (None, Some err), w)
      | (None, None) \<Rightarrow> (NilDereference, w)
      | (Some p, None) \<Rightarrow> (let (r, w') = SubmitJob p ctx config w in (Returns r, w')))"

definition Dispatcher_GetJobStatus ::
  "('c, 'w) Dispatcher \<Rightarrow> 'c \<Rightarrow> AssignedService \<Rightarrow> string \<Rightarrow> 'w
     \<Rightarrow> (JobStatus \<times> error option) outcome \<times> 'w" where
  "Dispatcher_GetJobStatus d ctx assignedService cloudResourcePath w =
     (case ProviderFor d assignedService of
        (_, Some err) \<Rightarrow> (Returns (JobStatusUnknown, Some err), w)
      | (None, None) \<Rightarrow> (NilDereference, w)
      | (Some p, None) \<Rightarrow> (let (r, w') = GetJobStatus p ctx cloudResourcePath w in (Returns r, w')))"

definition Dispatcher_CancelJob ::
  "('c, 'w) Dispatcher \<Rightarrow> 'c \<Rightarrow> AssignedService \<Rightarrow> string \<Rightarrow> 'w
     \<Rightarrow> error option outcome \<times> 'w" where
  "Dispatcher_CancelJob d ctx assignedService cloudResourcePath w =
     (case ProviderFor d assignedService of
        (_, Some err) \<Rightarrow> (Returns (Some err), w)
      | (None, None) \<Rightarrow> (NilDereference, w)
      | (Some p, None) \<Rightarrow> (let (r, w') = CancelJob p ctx cloudResourcePath w in (Returns r, w')))"

section \<open>Cloud Tasks provider: status mapping\<close>

text \<open>
  The part of \<^verbatim>\<open>taskspb.Task\<close> that \<^verbatim>\<open>mapCloudTasksStatus\<close> reads. Pointers are options
  (\<open>None\<close> is \<^verbatim>\<open>nil\<close>); the protobuf getters return \<^verbatim>\<open>nil\<close> on a \<^verbatim>\<open>nil\<close> receiver.
  The response code is an \<^verbatim>\<open>int32\<close>, read as two's complement by \<open>sint\<close>.
\<close>

record RpcStatus =
  Code :: "32 word"

record Attempt =
  ResponseStatus :: "RpcStatus option"

record Task =
  TaskName :: string
  LastAttempt :: "Attempt option"

definition mapCloudTasksStatus :: "Task option \<Rightarrow> JobStatus" where
  "mapCloudTasksStatus task =
     (case task of
        None \<Rightarrow> JobStatusUnknown
      | Some t \<Rightarrow>
          (case LastAttempt t of
             Some lastAttempt \<Rightarrow>
               (case ResponseStatus lastAttempt of
                  Some respStatus \<Rightarrow>
                    (let code = Code respStatus in
                     if 200 \<le> sint code \<and> sint code < 300 then JobStatusCompleted
                     else JobStatusFailed)
                | None \<Rightarrow> JobStatusRunning)
           | None \<Rightarrow> JobStatusPending))"

text \<open>
  The client of the Cloud Tasks service, as far as \<^verbatim>\<open>GetJobStatus\<close> and \<^verbatim>\<open>CancelJob\<close>
  call it. A call either fails with an error or succeeds (\<open>Inl\<close> is the error), and it
  may change the backend's state \<open>'w\<close>.
\<close>

record ('c, 'w) CloudTasksClient =
  GetTask :: "'c \<Rightarrow> string \<Rightarrow> 'w \<Rightarrow> (error + Task) \<times> 'w"
  DeleteTask :: "'c \<Rightarrow> string \<Rightarrow> 'w \<Rightarrow> error option \<times> 'w"

record ('c, 'w) GCPCloudTasksProvider =
  client :: "('c, 'w) CloudTasksClient"
  CloudTasks_projectID :: string
  CloudTasks_region :: string
  queueID :: string
  targetURL :: string

definition GCPCloudTasksProvider_GetJobStatus ::
  "('c, 'w) GCPCloudTasksProvider \<Rightarrow> 'c \<Rightarrow> string \<Rightarrow> 'w \<Rightarrow> (JobStatus \<times> error option) \<times> 'w" where
  "GCPCloudTasksProvider_GetJobStatus p ctx cloudResourcePath w =
     (case GetTask (client p) ctx cloudResourcePath w of
        (Inl err, w') \<Rightarrow>
          ((JobStatusUnknown, Some (Errorf ''failed to get Cloud Tasks task: %w'' [ArgError err])), w')
      | (Inr task, w') \<Rightarrow> ((mapCloudTasksStatus (Some task), None), w'))"

definition GCPCloudTasksProvider_CancelJob ::
  "('c, 'w) GCPCloudTasksProvider \<Rightarrow> 'c \<Rightarrow> string \<Rightarrow> 'w \<Rightarrow> error option \<times> 'w" where
  "GCPCloudTasksProvider_CancelJob p ctx cloudResourcePath w =
     (case DeleteTask (client p) ctx cloudResourcePath w of
        (Some err, w') \<Rightarrow> (Some (Errorf ''failed to delete Cloud Tasks task: %w'' [ArgError err]), w')
      | (None, w') \<Rightarrow> (None, w'))"

section \<open>Cloud Run Jobs provider\<close>

subsection \<open>Status mapping\<close>

text \<open>
  The part of \<^verbatim>\<open>runpb.Execution\<close> that \<^verbatim>\<open>mapCloudRunStatus\<close> reads: the condition list
  and three \<^verbatim>\<open>int32\<close> task counters.
\<close>

datatype Condition_State =
    CONDITION_STATE_UNSPECIFIED
  | CONDITION_PENDING
  | CONDITION_RECONCILING
  | CONDITION_FAILED
  | CONDITION_SUCCEEDED

record Condition =
  Type :: string
  State :: Condition_State

record Execution =
  ExecutionName :: string
  Conditions :: "Condition list"
  RunningCount :: "32 word"
  SucceededCount :: "32 word"
  FailedCount :: "32 word"

text \<open>
  The \<^verbatim>\<open>for ... range\<close> loop over the conditions: it returns at the first condition whose
  type is one of the three names and whose state is \<^verbatim>\<open>CONDITION_SUCCEEDED\<close>; \<open>None\<close>
  is leaving the loop without a return.
\<close>

fun terminalCondition :: "Condition list \<Rightarrow> JobStatus option" where
  "terminalCondition [] = None"
| "terminalCondition (condition # rest) =
     (if Type condition = ''Completed'' then
        (if State condition = CONDITION_SUCCEEDED then Some JobStatusCompleted
         else terminalCondition rest)
      else if Type condition = ''Failed'' then
        (if State condition = CONDITION_SUCCEEDED then Some JobStatusFailed
         else terminalCondition rest)
      else if Type condition = ''Cancelled'' then
        (if State condition = CONDITION_SUCCEEDED then Some JobStatusCancelled
         else terminalCondition rest)
      else terminalCondition rest)"

definition mapCloudRunStatus :: "Execution option \<Rightarrow> JobStatus" where
  "mapCloudRunStatus execution =
     (case execution of
        None \<Rightarrow> JobStatusUnknown
      | Some e \<Rightarrow>
          (case terminalCondition (Conditions e) of
             Some status \<Rightarrow> status
           | None \<Rightarrow>
               if 0 < sint (RunningCount e) then JobStatusRunning
               else if RunningCount e = 0 \<and> SucceededCount e = 0 \<and> FailedCount e = 0
               then JobStatusPending
               else JobStatusRunning))"

text \<open>
  The spec's tie-break rule, word for word, for comparison with \<open>mapCloudRunStatus\<close>:
  check the terminal conditions Completed, Failed, Cancelled first, in that fixed order;
  only if none is in a succeeded state, fall back to counting running against pending
  tasks.
\<close>

definition succeeded :: "string \<Rightarrow> Condition list \<Rightarrow> bool" where
  "succeeded name conditions =
     list_ex (\<lambda>c. Type c = name \<and> State c = CONDITION_SUCCEEDED) conditions"

definition mapCloudRunStatus_fixed_order :: "Execution option \<Rightarrow> JobStatus" where
  "mapCloudRunStatus_fixed_order execution =
     (case execution of
        None \<Rightarrow> JobStatusUnknown
      | Some e \<Rightarrow>
          if succeeded ''Completed'' (Conditions e) then JobStatusCompleted
          else if succeeded ''Failed'' (Conditions e) then JobStatusFailed
          else if succeeded ''Cancelled'' (Conditions e) then JobStatusCancelled
          else if 0 < sint (RunningCount e) then JobStatusRunning
          else if RunningCount e = 0 \<and> SucceededCount e = 0 \<and> FailedCount e = 0
          then JobStatusPending
          else JobStatusRunning)"

text \<open>
  Vocabulary for the properties: a terminal condition is one of the three types in the
  succeeded state, and it stands for one status.
\<close>

definition isTerminal :: "Condition \<Rightarrow> bool" where
  "isTerminal c =
     (State c = CONDITION_SUCCEEDED
      \<and> (Type c = ''Completed'' \<or> Type c = ''Failed'' \<or> Type c = ''Cancelled''))"

definition terminalStatus :: "Condition \<Rightarrow> JobStatus" where
  "terminalStatus c =
     (if Type c = ''Completed'' then JobStatusCompleted
      else if Type c = ''Failed'' then JobStatusFailed
      else JobStatusCancelled)"

definition countStatus :: "Execution \<Rightarrow> JobStatus" where
  "countStatus e =
     (if 0 < sint (RunningCount e) then JobStatusRunning
      else if RunningCount e = 0 \<and> SucceededCount e = 0 \<and> FailedCount e = 0
      then JobStatusPending
      else JobStatusRunning)"

subsection \<open>Requests and clients\<close>

text \<open>
  \<^verbatim>\<open>fmt.Sprintf("%d", n)\<close> for the resource limits: decimal digits, with a minus sign
  for a negative number.
\<close>

fun digits :: "nat \<Rightarrow> string" where
  "digits n =
     (if n < 10 then [char_of (48 + n)]
      else digits (n div 10) @ [char_of (48 + n mod 10)])"

definition itoa :: "int \<Rightarrow> string" where
  "itoa i = (if i < 0 then CHR ''-'' # digits (nat (- i)) else digits (nat i))"

text \<open>
  The request that \<^verbatim>\<open>SubmitJob\<close> builds, field by field. The timeout is the
  \<^verbatim>\<open>time.Duration\<close> handed to \<^verbatim>\<open>durationpb.New\<close>, a 64-bit count of nanoseconds;
  the retry count is present when the provider sets it.
\<close>

record EnvVar =
  EnvVar_Name :: string
  EnvVar_Value :: string

record Container =
  Container_Image :: string
  Container_Command :: "string list"
  Container_Args :: "string list"
  Container_Env :: "EnvVar list"
  Container_Limits :: "string \<rightharpoonup> string"

record TaskTemplate =
  TaskTemplate_Containers :: "Container list"
  TaskTemplate_Timeout :: "64 word option"
  TaskTemplate_Retries :: "32 word option"
  TaskTemplate_ServiceAccount :: string

record ExecutionTemplate =
  ExecutionTemplate_Template :: TaskTemplate
  ExecutionTemplate_TaskCount :: "32 word"
  ExecutionTemplate_Parallelism :: "32 word"

datatype LaunchStage = LaunchStage_GA

record Job =
  Job_Name :: string
  Job_Template :: ExecutionTemplate
  Job_LaunchStage :: LaunchStage

record CreateJobRequest =
  CreateJobRequest_Parent :: string
  CreateJobRequest_JobId :: string
  CreateJobRequest_Job :: Job

text \<open>
  The two Cloud Run clients. A long-running operation is the value a call returns, with
  its own \<^verbatim>\<open>Wait\<close>; the iterator of \<^verbatim>\<open>ListExecutions\<close> is read through \<^verbatim>\<open>Next\<close>.
\<close>

record ('c, 'w) CreateJobOperation =
  CreateJobOperation_Wait :: "'c \<Rightarrow> 'w \<Rightarrow> (error + Job) \<times> 'w"

record RunJobOperation =
  RunJobOperation_Metadata :: "error + Execution"

record ('c, 'w) JobsClient =
  CreateJob :: "'c \<Rightarrow> CreateJobRequest \<Rightarrow> 'w \<Rightarrow> (error + ('c, 'w) CreateJobOperation) \<times> 'w"
  RunJob :: "'c \<Rightarrow> string \<Rightarrow> 'w \<Rightarrow> (error + RunJobOperation) \<times> 'w"

record 'w ExecutionIterator =
  Next :: "'w \<Rightarrow> (error + Execution) \<times> 'w"

record ('c, 'w) CancelExecutionOperation =
  CancelExecutionOperation_Wait :: "'c \<Rightarrow> 'w \<Rightarrow> (error + Execution) \<times> 'w"

record ('c, 'w) ExecutionsClient =
  ListExecutions :: "'c \<Rightarrow> string \<Rightarrow> 'w ExecutionIterator"
  CancelExecution :: "'c \<Rightarrow> string \<Rightarrow> 'w \<Rightarrow> (error + ('c, 'w) CancelExecutionOperation) \<times> 'w"

record ('c, 'w) GCPCloudRunProvider =
  jobsClient :: "('c, 'w) JobsClient"
  executionClient :: "('c, 'w) ExecutionsClient"
  CloudRun_projectID :: string
  CloudRun_region :: string

subsection \<open>SubmitJob\<close>

definition buildContainer :: "JobConfig \<Rightarrow> Container" where
  "buildContainer config =
     (let command = (if Commands config \<noteq> [] then Commands config else []);
          (command, args) =
            (if ContainerEntrypoint config \<noteq> []
             then ([ContainerEntrypoint config],
                   if Commands config \<noteq> [] then Commands config else [])
             else (command, []));
          env = map (\<lambda>(k, v). \<lparr>EnvVar_Name = k, EnvVar_Value = v\<rparr>) (EnvVars config);
          limits =
            (case Resources config of
               None \<Rightarrow> Map.empty
             | Some r \<Rightarrow>
                 (let l = (if 0 < CPUMillis r
                           then [''cpu'' \<mapsto> itoa (CPUMillis r) @ ''m''] else Map.empty)
                  in if 0 < MemoryMiB r then l(''memory'' \<mapsto> itoa (MemoryMiB r) @ ''Mi'') else l))
      in \<lparr>Container_Image = ImageURI config, Container_Command = command,
          Container_Args = args, Container_Env = env, Container_Limits = limits\<rparr>)"

definition buildExecutionTemplate :: "JobConfig \<Rightarrow> ExecutionTemplate" where
  "buildExecutionTemplate config =
     (let taskTemplate =
            \<lparr>TaskTemplate_Containers = [buildContainer config],
             TaskTemplate_Timeout =
               (case Resources config of
                  None \<Rightarrow> None
                | Some r \<Rightarrow>
                    if 0 < MaxRunDurationSeconds r
                    then Some (word_of_int (MaxRunDurationSeconds r) * 1000000000)
                    else None),
             TaskTemplate_Retries =
               (if 0 < sint (MaxRetryCount config) then Some (MaxRetryCount config) else None),
             TaskTemplate_ServiceAccount =
               (if ServiceAccount config \<noteq> [] then ServiceAccount config else [])\<rparr>
      in \<lparr>ExecutionTemplate_Template = taskTemplate,
          ExecutionTemplate_TaskCount =
            (case TaskGroup config of
               None \<Rightarrow> 0
             | Some g \<Rightarrow> if 0 < TaskCount g then word_of_int (TaskCount g) else 0),
          ExecutionTemplate_Parallelism =
            (case TaskGroup config of
               None \<Rightarrow> 0
             | Some g \<Rightarrow> if 0 < Parallelism g then word_of_int (Parallelism g) else 0)\<rparr>)"

definition buildCreateJobRequest :: "('c, 'w) GCPCloudRunProvider \<Rightarrow> JobConfig \<Rightarrow> CreateJobRequest" where
  "buildCreateJobRequest p config =
     (let parent = ''projects/'' @ CloudRun_projectID p @ ''/locations/'' @ CloudRun_region p
      in \<lparr>CreateJobRequest_Parent = parent,
          CreateJobRequest_JobId = JobID config,
          CreateJobRequest_Job =
            \<lparr>Job_Name = [], Job_Template = buildExecutionTemplate config,
             Job_LaunchStage = LaunchStage_GA\<rparr>\<rparr>)"

text \<open>
  Step 1 creates the job and waits for the creation; step 2 runs it. Each failing call
  returns at once with its own message.
\<close>

definition GCPCloudRunProvider_SubmitJob ::
  "('c, 'w) GCPCloudRunProvider \<Rightarrow> 'c \<Rightarrow> JobConfig \<Rightarrow> 'w
     \<Rightarrow> (JobResult option \<times> error option) \<times> 'w" where
  "GCPCloudRunProvider_SubmitJob p ctx config w =
     (let createReq = buildCreateJobRequest p config
      in case CreateJob (jobsClient p) ctx createReq w of
           (Inl err, w1) \<Rightarrow>
             ((None, Some (Errorf ''failed to create Cloud Run job: %w'' [ArgError err])), w1)
         | (Inr createOp, w1) \<Rightarrow>
             (case CreateJobOperation_Wait createOp ctx w1 of
                (Inl err, w2) \<Rightarrow>
                  ((None, Some (Errorf ''failed waiting for Cloud Run job creation: %w''
                                  [ArgError err])), w2)
              | (Inr job, w2) \<Rightarrow>
                  (case RunJob (jobsClient p) ctx (Job_Name job) w2 of
                     (Inl err, w3) \<Rightarrow>
                       ((None, Some (Errorf ''failed to run Cloud Run job: %w'' [ArgError err])), w3)
                   | (Inr runOp, w3) \<Rightarrow>
                       (case RunJobOperation_Metadata runOp of
                          Inl err \<Rightarrow>
                            ((Some \<lparr>CloudResourcePath = Job_Name job,
                                    InitialStatus = JobStatusRunning\<rparr>, None), w3)
                        | Inr execution \<Rightarrow>
                            ((Some \<lparr>CloudResourcePath = Job_Name job,
                                    InitialStatus = JobStatusRunning\<rparr>, None), w3)))))"

subsection \<open>GetJobStatus and CancelJob\<close>

definition GCPCloudRunProvider_GetJobStatus ::
  "('c, 'w) GCPCloudRunProvider \<Rightarrow> 'c \<Rightarrow> string \<Rightarrow> 'w \<Rightarrow> (JobStatus \<times> error option) \<times> 'w" where
  "GCPCloudRunProvider_GetJobStatus p ctx cloudResourcePath w =
     (let it = ListExecutions (executionClient p) ctx cloudResourcePath
      in case Next it w of
           (Inl err, w') \<Rightarrow>
             ((JobStatusUnknown,
               Some (Errorf ''failed to list Cloud Run executions: %w'' [ArgError err])), w')
         | (Inr execution, w') \<Rightarrow> ((mapCloudRunStatus (Some execution), None), w'))"

definition GCPCloudRunProvider_CancelJob ::
  "('c, 'w) GCPCloudRunProvider \<Rightarrow> 'c \<Rightarrow> string \<Rightarrow> 'w \<Rightarrow> error option \<times> 'w" where
  "GCPCloudRunProvider_CancelJob p ctx cloudResourcePath w =
     (let it = ListExecutions (executionClient p) ctx cloudResourcePath
      in case Next it w of
           (Inl err, w1) \<Rightarrow>
             (Some (Errorf ''no executions found for Cloud Run job: %w'' [ArgError err]), w1)
         | (Inr execution, w1) \<Rightarrow>
             (case CancelExecution (executionClient p) ctx (ExecutionName execution) w1 of
                (Inl err, w2) \<Rightarrow>
                  (Some (Errorf ''failed to cancel Cloud Run execution: %w'' [ArgError err]), w2)
              | (Inr cancelOp, w2) \<Rightarrow>
                  (case CancelExecutionOperation_Wait cancelOp ctx w2 of
                     (Inl err, w3) \<Rightarrow>
                       (Some (Errorf ''failed waiting for Cloud Run execution cancellation: %w''
                                [ArgError err]), w3)
                   | (Inr _, w3) \<Rightarrow> (None, w3))))"

subsection \<open>What an error is built from\<close>

text \<open>
  The strings an error is built from: its format strings and the texts of the errors it
  wraps. A service tier is a tag, not a string. An error includes a resource handle when
  the handle occurs in one of these strings.
\<close>

primrec error_strings :: "error \<Rightarrow> string list"
  and arg_strings :: "fmt_arg \<Rightarrow> string list" where
  "error_strings (Opaque s) = [s]"
| "error_strings (Errorf f args) = f # concat (map arg_strings args)"
| "arg_strings (ArgError e) = error_strings e"
| "arg_strings (ArgService svc) = []"

definition error_includes :: "string \<Rightarrow> error \<Rightarrow> bool" where
  "error_includes handle e = list_ex (sublist handle) (error_strings e)"

section \<open>Backends and providers for the examples\<close>

text \<open>
  A provider that counts the calls it receives in the state and returns a value and an
  error together, so that a change made on the way back would show.
\<close>

definition countingProvider :: "(unit, nat) Provider" where
  "countingProvider =
     \<lparr>ServiceType = ''counting'',
      SubmitJob = (\<lambda>ctx config n.
        ((Some \<lparr>CloudResourcePath = ''handle/'' @ JobID config, InitialStatus = JobStatusPending\<rparr>,
          Some (Opaque ''quota warning'')), Suc n)),
      GetJobStatus = (\<lambda>ctx path n. ((JobStatusRunning, Some (Opaque ''stale read'')), Suc n)),
      CancelJob = (\<lambda>ctx path n. (Some (Opaque ''refused''), Suc n)),
      ListJobs = (\<lambda>ctx n. (([], None), n))\<rparr>"

definition exampleConfig :: JobConfig where
  "exampleConfig =
     \<lparr>JobID = ''jennah-42'', ImageURI = ''gcr.io/p1/worker'', Commands = [],
      ContainerEntrypoint = [], EnvVars = [], Resources = None, TaskGroup = None,
      MaxRetryCount = 0, ServiceAccount = []\<rparr>"

text \<open>
  A Cloud Tasks queue as the list of the task names in it. Deleting a task that is in the
  queue removes it; deleting one that is not there is refused, as the service refuses it.
\<close>

definition queueClient :: "(unit, string list) CloudTasksClient" where
  "queueClient =
     \<lparr>GetTask = (\<lambda>ctx name q.
        if name \<in> set q then (Inr \<lparr>TaskName = name, LastAttempt = None\<rparr>, q)
        else (Inl (Opaque ''rpc error: code = NotFound''), q)),
      DeleteTask = (\<lambda>ctx name q.
        if name \<in> set q then (None, removeAll name q)
        else (Some (Opaque ''rpc error: code = NotFound''), q))\<rparr>"

definition queueProvider :: "(unit, string list) GCPCloudTasksProvider" where
  "queueProvider =
     \<lparr>client = queueClient, CloudTasks_projectID = ''p1'', CloudTasks_region = ''us'',
      queueID = ''jennah-simple'', targetURL = ''https://worker.example/run''\<rparr>"

text \<open>
  A Cloud Run backend as the list of the names of the jobs it holds. Creating a job adds
  its name when the creation is waited for; running a job is refused. Every job it holds
  has one execution, and cancelling that execution is accepted.
\<close>

definition exampleExecution :: "string \<Rightarrow> Execution" where
  "exampleExecution parent =
     \<lparr>ExecutionName = parent @ ''/executions/e1'', Conditions = [],
      RunningCount = 1, SucceededCount = 0, FailedCount = 0\<rparr>"

definition refusingJobsClient :: "(unit, string list) JobsClient" where
  "refusingJobsClient =
     \<lparr>CreateJob = (\<lambda>ctx req jobs.
        (Inr \<lparr>CreateJobOperation_Wait = (\<lambda>ctx jobs.
           (let name = CreateJobRequest_Parent req @ ''/jobs/'' @ CreateJobRequest_JobId req
            in (Inr ((CreateJobRequest_Job req)\<lparr>Job_Name := name\<rparr>), name # jobs)))\<rparr>, jobs)),
      RunJob = (\<lambda>ctx name jobs. (Inl (Opaque ''rpc error: code = Unavailable''), jobs))\<rparr>"

definition exampleExecutionsClient :: "(unit, string list) ExecutionsClient" where
  "exampleExecutionsClient =
     \<lparr>ListExecutions = (\<lambda>ctx parent.
        \<lparr>Next = (\<lambda>jobs.
           if parent \<in> set jobs then (Inr (exampleExecution parent), jobs)
           else (Inl (Opaque ''no more items in iterator''), jobs))\<rparr>),
      CancelExecution = (\<lambda>ctx name jobs.
        (Inr \<lparr>CancelExecutionOperation_Wait = (\<lambda>ctx jobs.
           (Inr \<lparr>ExecutionName = name, Conditions = [],
                 RunningCount = 0, SucceededCount = 0, FailedCount = 0\<rparr>, jobs))\<rparr>, jobs))\<rparr>"

definition refusingRunProvider :: "(unit, string list) GCPCloudRunProvider" where
  "refusingRunProvider =
     \<lparr>jobsClient = refusingJobsClient, executionClient = exampleExecutionsClient,
      CloudRun_projectID = ''p1'', CloudRun_region = ''us''\<rparr>"

text \<open>
  A Cloud Run backend as the list of the names of the executions that are still active.
  Every job has one execution. Cancelling an active execution is accepted, and waiting
  for the cancellation ends it; cancelling an execution that is no longer active is
  refused.
\<close>

definition strictExecutionsClient :: "(unit, string list) ExecutionsClient" where
  "strictExecutionsClient =
     \<lparr>ListExecutions = (\<lambda>ctx parent.
        \<lparr>Next = (\<lambda>active. (Inr (exampleExecution parent), active))\<rparr>),
      CancelExecution = (\<lambda>ctx name active.
        if name \<in> set active
        then (Inr \<lparr>CancelExecutionOperation_Wait = (\<lambda>ctx active.
                (Inr \<lparr>ExecutionName = name,
                      Conditions = [\<lparr>Type = ''Cancelled'', State = CONDITION_SUCCEEDED\<rparr>],
                      RunningCount = 0, SucceededCount = 0, FailedCount = 0\<rparr>,
                 removeAll name active))\<rparr>, active)
        else (Inl (Opaque ''rpc error: code = FailedPrecondition''), active))\<rparr>"

definition strictRunProvider :: "(unit, string list) GCPCloudRunProvider" where
  "strictRunProvider =
     \<lparr>jobsClient = refusingJobsClient, executionClient = strictExecutionsClient,
      CloudRun_projectID = ''p1'', CloudRun_region = ''us''\<rparr>"

section \<open>Properties of the router\<close>

text \<open>
  C1. The router is a total function on resource triples: every triple gets exactly one
  tier. A triple at or below (500 mCPU, 512 MiB, 600 s) in every dimension gets the Cloud
  Tasks tier; a triple at or below (4000 mCPU, 8192 MiB, 3600 s) that exceeds the first
  limits in some dimension gets the Cloud Run Jobs tier; every other triple gets the
  Cloud Batch tier. Fields left at zero are within the lowest limits, so the triple
  (0, 0, 0) gets the Cloud Tasks tier.
\<close>

theorem Router_tiers:
  "(\<exists>!svc. Router r = svc)
   \<and> (CPUMillis r \<le> 500 \<and> MemoryMiB r \<le> 512 \<and> MaxRunDurationSeconds r \<le> 600
        \<longrightarrow> Router r = AssignedServiceCloudTasks)
   \<and> (CPUMillis r \<le> 4000 \<and> MemoryMiB r \<le> 8192 \<and> MaxRunDurationSeconds r \<le> 3600
        \<and> (500 < CPUMillis r \<or> 512 < MemoryMiB r \<or> 600 < MaxRunDurationSeconds r)
        \<longrightarrow> Router r = AssignedServiceCloudRunJob)
   \<and> (4000 < CPUMillis r \<or> 8192 < MemoryMiB r \<or> 3600 < MaxRunDurationSeconds r
        \<longrightarrow> Router r = AssignedServiceCloudBatch)
   \<and> Router \<lparr>CPUMillis = 0, MemoryMiB = 0, MaxRunDurationSeconds = 0\<rparr> = AssignedServiceCloudTasks"
  by (auto simp: Router_def)

theorem Router_tiers_witness:
  "Router \<lparr>CPUMillis = 200, MemoryMiB = 256, MaxRunDurationSeconds = 60\<rparr> = AssignedServiceCloudTasks
   \<and> Router \<lparr>CPUMillis = 500, MemoryMiB = 512, MaxRunDurationSeconds = 601\<rparr> = AssignedServiceCloudRunJob
   \<and> Router \<lparr>CPUMillis = 8000, MemoryMiB = 16384, MaxRunDurationSeconds = 0\<rparr> = AssignedServiceCloudBatch"
  using Router_tiers [of "\<lparr>CPUMillis = 200, MemoryMiB = 256, MaxRunDurationSeconds = 60\<rparr>"]
    Router_tiers [of "\<lparr>CPUMillis = 500, MemoryMiB = 512, MaxRunDurationSeconds = 601\<rparr>"]
    Router_tiers [of "\<lparr>CPUMillis = 8000, MemoryMiB = 16384, MaxRunDurationSeconds = 0\<rparr>"]
  by simp

section \<open>Properties of the dispatcher\<close>

text \<open>
  C2. For every dispatcher and every tier without a registered provider, \<^verbatim>\<open>ProviderFor\<close>
  returns no provider and the error "no provider registered for service", and
  \<^verbatim>\<open>SubmitJob\<close>, \<^verbatim>\<open>GetJobStatus\<close> and \<^verbatim>\<open>CancelJob\<close> return that error without
  touching the backend: none of them panics.
\<close>

theorem unregistered_tier_error:
  assumes "providers d svc = None"
  defines "e \<equiv> Errorf ''dispatcher: no provider registered for service %s'' [ArgService svc]"
  shows "ProviderFor d svc = (None, Some e)
    \<and> Dispatcher_SubmitJob d ctx svc config w = (Returns (None, Some e), w)
    \<and> Dispatcher_GetJobStatus d ctx svc path w = (Returns (JobStatusUnknown, Some e), w)
    \<and> Dispatcher_CancelJob d ctx svc path w = (Returns (Some e), w)"
  using assms
  by (simp add: ProviderFor_def Dispatcher_SubmitJob_def Dispatcher_GetJobStatus_def
      Dispatcher_CancelJob_def)

theorem unregistered_tier_error_witness:
  "providers \<lparr>providers = [AssignedServiceCloudTasks \<mapsto> Some countingProvider]\<rparr>
      AssignedServiceCloudBatch = None
   \<and> ProviderFor \<lparr>providers = [AssignedServiceCloudTasks \<mapsto> Some countingProvider]\<rparr>
        AssignedServiceCloudBatch
      = (None, Some (Errorf ''dispatcher: no provider registered for service %s''
                      [ArgService AssignedServiceCloudBatch]))
   \<and> Dispatcher_SubmitJob \<lparr>providers = [AssignedServiceCloudTasks \<mapsto> Some countingProvider]\<rparr>
        () AssignedServiceCloudBatch exampleConfig 0
      = (Returns (None, Some (Errorf ''dispatcher: no provider registered for service %s''
                               [ArgService AssignedServiceCloudBatch])), 0)"
  using unregistered_tier_error
    [where d = "\<lparr>providers = [AssignedServiceCloudTasks \<mapsto> Some countingProvider]\<rparr>"
       and svc = AssignedServiceCloudBatch and ctx = "()" and config = exampleConfig and w = 0]
  by simp

text \<open>
  The options of \<^verbatim>\<open>New\<close>, applied in order to the empty registry, leave the last provider
  given for each tier.
\<close>

lemma apply_WithProvider:
  "WithProvider svc p d = d\<lparr>providers := (providers d)(svc \<mapsto> p)\<rparr>"
  by (cases svc) (simp_all add: WithProvider_def WithCloudTasks_def WithCloudRunJobs_def WithCloudBatch_def)

lemma foldl_WithProvider:
  "foldl (\<lambda>d opt. opt d) \<lparr>providers = Map.empty\<rparr> (map (\<lambda>(svc, p). WithProvider svc (Some p)) regs)
     = \<lparr>providers = (\<lambda>svc. map_option Some (map_of (rev regs) svc))\<rparr>"
proof (induction regs rule: rev_induct)
  case Nil
  show ?case by simp
next
  case (snoc x xs)
  obtain svc p where x: "x = (svc, p)" by (cases x)
  show ?case
    by (simp add: snoc.IH x) (simp add: apply_WithProvider fun_eq_iff)
qed

text \<open>
  Every tier is a key of the list that \<^verbatim>\<open>New\<close> counts and logs over, so the two tests of
  \<^verbatim>\<open>New\<close> are tests on the whole registry.
\<close>

lemma tiers_all: "svc \<in> set tiers"
  by (cases svc) (simp_all add: tiers_def)

lemma New_by_registry:
  "New opts =
     (let d = foldl (\<lambda>d opt. opt d) \<lparr>providers = Map.empty\<rparr> opts in
      if \<forall>svc. providers d svc = None
      then Returns (None, Some (Errorf ''dispatcher: at least one provider must be configured'' []))
      else if \<exists>svc. providers d svc = Some None then NilDereference
      else Returns (Some d, None))"
proof -
  have len: "len_providers d = 0 \<longleftrightarrow> (\<forall>svc. providers d svc = None)" for d :: "('a, 'b) Dispatcher"
    using tiers_all by (auto simp: len_providers_def filter_empty_conv)
  have nil: "list_ex (\<lambda>svc. providers d svc = Some None) tiers \<longleftrightarrow> (\<exists>svc. providers d svc = Some None)"
    for d :: "('a, 'b) Dispatcher"
    using tiers_all by (auto simp: list_ex_iff)
  show ?thesis
    unfolding New_def len nil ..
qed

text \<open>
  C3, as the code has it. Whatever the options are, \<^verbatim>\<open>New\<close> is decided by the registry
  they leave. When they register no provider, construction fails: \<^verbatim>\<open>New\<close> returns no
  instance and an error. When they register at least one provider and none of the
  registered providers is \<^verbatim>\<open>nil\<close>, construction succeeds and returns that registry. When
  a registered provider is \<^verbatim>\<open>nil\<close>, \<^verbatim>\<open>New\<close> does not return. In particular \<^verbatim>\<open>New\<close>
  without options fails, and \<^verbatim>\<open>New\<close> with a non-empty list of options that carry providers
  returns the last provider given for each tier.
\<close>

theorem New_construction:
  fixes opts :: "('c, 'w) Option list" and regs :: "(AssignedService \<times> ('c, 'w) Provider) list"
  defines "d \<equiv> foldl (\<lambda>d opt. opt d) \<lparr>providers = Map.empty\<rparr> opts"
  shows "((\<forall>svc. providers d svc = None) \<longrightarrow>
            New opts = Returns (None, Some (Errorf ''dispatcher: at least one provider must be configured'' [])))
     \<and> ((\<exists>svc. providers d svc \<noteq> None) \<and> (\<forall>svc. providers d svc \<noteq> Some None) \<longrightarrow>
            New opts = Returns (Some d, None))
     \<and> ((\<exists>svc. providers d svc = Some None) \<longrightarrow> New opts = NilDereference)
     \<and> New ([] :: ('c, 'w) Option list)
          = Returns (None, Some (Errorf ''dispatcher: at least one provider must be configured'' []))
     \<and> (regs \<noteq> [] \<longrightarrow>
          New (map (\<lambda>(svc, p). WithProvider svc (Some p)) regs)
            = Returns (Some \<lparr>providers = (\<lambda>svc. map_option Some (map_of (rev regs) svc))\<rparr>, None))"
proof -
  have general: "((\<forall>svc. providers d svc = None) \<longrightarrow>
            New opts = Returns (None, Some (Errorf ''dispatcher: at least one provider must be configured'' [])))
     \<and> ((\<exists>svc. providers d svc \<noteq> None) \<and> (\<forall>svc. providers d svc \<noteq> Some None) \<longrightarrow>
            New opts = Returns (Some d, None))
     \<and> ((\<exists>svc. providers d svc = Some None) \<longrightarrow> New opts = NilDereference)"
    unfolding d_def by (auto simp: New_by_registry Let_def)
  have empty: "New ([] :: ('c, 'w) Option list)
          = Returns (None, Some (Errorf ''dispatcher: at least one provider must be configured'' []))"
    by (simp add: New_by_registry)
  have given: "New (map (\<lambda>(svc, p). WithProvider svc (Some p)) regs)
            = Returns (Some \<lparr>providers = (\<lambda>svc. map_option Some (map_of (rev regs) svc))\<rparr>, None)"
    if ne: "regs \<noteq> []"
  proof -
    obtain svc p where last: "last regs = (svc, p)" by (cases "last regs")
    from ne have r: "rev regs = (svc, p) # rev (butlast regs)"
      by (metis last append_butlast_last_id rev.simps(2) rev_append append_Nil rev.simps(1) append_Cons)
    have "map_option Some (map_of (rev regs) svc) = Some (Some p)" unfolding r by simp
    then have some: "\<exists>svc. map_option Some (map_of (rev regs) svc) \<noteq> None" by force
    show ?thesis
      using some by (auto simp: New_by_registry foldl_WithProvider Let_def)
  qed
  from general empty given show ?thesis by blast
qed

theorem New_construction_witness:
  "New [\<lambda>d :: (unit, nat) Dispatcher. d]
     = Returns (None, Some (Errorf ''dispatcher: at least one provider must be configured'' []))
   \<and> (\<exists>d. New [WithCloudTasks (Some countingProvider)] = Returns (Some d, None)
          \<and> providers d AssignedServiceCloudTasks = Some (Some countingProvider)
          \<and> providers d AssignedServiceCloudBatch = None)"
proof -
  have none: "\<forall>svc. providers (foldl (\<lambda>d opt. opt d) \<lparr>providers = Map.empty\<rparr>
                  [\<lambda>d :: (unit, nat) Dispatcher. d]) svc = None"
    by simp
  have a: "New [\<lambda>d :: (unit, nat) Dispatcher. d]
     = Returns (None, Some (Errorf ''dispatcher: at least one provider must be configured'' []))"
    using none New_construction [of "[\<lambda>d :: (unit, nat) Dispatcher. d]" "[]"]
    by blast
  have some: "(\<exists>svc. providers (foldl (\<lambda>d opt. opt d) \<lparr>providers = Map.empty\<rparr>
                  [WithCloudTasks (Some countingProvider)]) svc \<noteq> None)
     \<and> (\<forall>svc. providers (foldl (\<lambda>d opt. opt d) \<lparr>providers = Map.empty\<rparr>
                  [WithCloudTasks (Some countingProvider)]) svc \<noteq> Some None)"
    by (auto simp: WithCloudTasks_def)
  have b: "New [WithCloudTasks (Some countingProvider)]
     = Returns (Some (foldl (\<lambda>d opt. opt d) \<lparr>providers = Map.empty\<rparr>
                  [WithCloudTasks (Some countingProvider)]), None)"
    using some New_construction [of "[WithCloudTasks (Some countingProvider)]" "[]"]
    by blast
  show ?thesis
    using a b by (simp add: WithCloudTasks_def)
qed

text \<open>
  C3, as stated, fails. With a provider registered for the Cloud Batch tier and a
  \<^verbatim>\<open>nil\<close> provider registered for the Cloud Tasks tier, at least one provider is
  registered and \<^verbatim>\<open>New\<close> panics instead of returning an instance.
\<close>

theorem New_nil_provider_counterexample:
  "providers (foldl (\<lambda>d opt. opt d) \<lparr>providers = Map.empty\<rparr>
      [WithCloudBatch (Some countingProvider), WithCloudTasks None]) AssignedServiceCloudBatch
     = Some (Some countingProvider)
   \<and> New [WithCloudBatch (Some countingProvider), WithCloudTasks None] = NilDereference"
  by (simp add: New_def WithCloudBatch_def WithCloudTasks_def len_providers_def tiers_def)

text \<open>
  C4. For every tier with a registered provider, \<^verbatim>\<open>SubmitJob\<close>, \<^verbatim>\<open>GetJobStatus\<close> and
  \<^verbatim>\<open>CancelJob\<close> of the dispatcher forward the call: each returns exactly the value and the
  error that the provider's method returns, and leaves the backend in the state one call
  of that method leaves it in (no retry, no translation).
\<close>

theorem dispatcher_forwards:
  assumes "providers d svc = Some (Some p)"
  shows "Dispatcher_SubmitJob d ctx svc config w
           = (Returns (fst (SubmitJob p ctx config w)), snd (SubmitJob p ctx config w))
    \<and> Dispatcher_GetJobStatus d ctx svc path w
           = (Returns (fst (GetJobStatus p ctx path w)), snd (GetJobStatus p ctx path w))
    \<and> Dispatcher_CancelJob d ctx svc path w
           = (Returns (fst (CancelJob p ctx path w)), snd (CancelJob p ctx path w))"
  using assms
  by (simp add: ProviderFor_def Dispatcher_SubmitJob_def Dispatcher_GetJobStatus_def
      Dispatcher_CancelJob_def split_beta)

theorem dispatcher_forwards_witness:
  "providers \<lparr>providers = [AssignedServiceCloudTasks \<mapsto> Some countingProvider]\<rparr>
      AssignedServiceCloudTasks = Some (Some countingProvider)
   \<and> Dispatcher_SubmitJob \<lparr>providers = [AssignedServiceCloudTasks \<mapsto> Some countingProvider]\<rparr>
        () AssignedServiceCloudTasks exampleConfig 0
      = (Returns (Some \<lparr>CloudResourcePath = ''handle/jennah-42'', InitialStatus = JobStatusPending\<rparr>,
                  Some (Opaque ''quota warning'')), 1)
   \<and> Dispatcher_GetJobStatus \<lparr>providers = [AssignedServiceCloudTasks \<mapsto> Some countingProvider]\<rparr>
        () AssignedServiceCloudTasks ''handle/jennah-42'' 1
      = (Returns (JobStatusRunning, Some (Opaque ''stale read'')), 2)
   \<and> Dispatcher_CancelJob \<lparr>providers = [AssignedServiceCloudTasks \<mapsto> Some countingProvider]\<rparr>
        () AssignedServiceCloudTasks ''handle/jennah-42'' 2
      = (Returns (Some (Opaque ''refused'')), 3)"
  using
    dispatcher_forwards
      [where d = "\<lparr>providers = [AssignedServiceCloudTasks \<mapsto> Some countingProvider]\<rparr>"
         and svc = AssignedServiceCloudTasks and p = countingProvider and ctx = "()"
         and config = exampleConfig and w = 0 and path = "''handle/jennah-42''"]
    dispatcher_forwards
      [where d = "\<lparr>providers = [AssignedServiceCloudTasks \<mapsto> Some countingProvider]\<rparr>"
         and svc = AssignedServiceCloudTasks and p = countingProvider and ctx = "()"
         and config = exampleConfig and w = 1 and path = "''handle/jennah-42''"]
    dispatcher_forwards
      [where d = "\<lparr>providers = [AssignedServiceCloudTasks \<mapsto> Some countingProvider]\<rparr>"
         and svc = AssignedServiceCloudTasks and p = countingProvider and ctx = "()"
         and config = exampleConfig and w = 2 and path = "''handle/jennah-42''"]
  by (simp add: countingProvider_def exampleConfig_def)

text \<open>
  C10. Whenever \<^verbatim>\<open>GetJobStatus\<close> of the dispatcher finds no provider for the tier, the
  status it returns beside the error is \<open>JobStatusUnknown\<close>.
\<close>

theorem GetJobStatus_lookup_failure_Unknown:
  assumes "snd (ProviderFor d svc) = Some err"
  shows "Dispatcher_GetJobStatus d ctx svc path w = (Returns (JobStatusUnknown, Some err), w)"
  using assms
  by (cases "ProviderFor d svc") (auto simp: Dispatcher_GetJobStatus_def split: option.splits)

theorem GetJobStatus_lookup_failure_Unknown_witness:
  "snd (ProviderFor \<lparr>providers = [AssignedServiceCloudTasks \<mapsto> Some countingProvider]\<rparr>
          AssignedServiceCloudRunJob)
      = Some (Errorf ''dispatcher: no provider registered for service %s''
                [ArgService AssignedServiceCloudRunJob])
   \<and> Dispatcher_GetJobStatus \<lparr>providers = [AssignedServiceCloudTasks \<mapsto> Some countingProvider]\<rparr>
        () AssignedServiceCloudRunJob ''handle/jennah-42'' 0
      = (Returns (JobStatusUnknown,
                  Some (Errorf ''dispatcher: no provider registered for service %s''
                          [ArgService AssignedServiceCloudRunJob])), 0)"
proof -
  have h: "snd (ProviderFor \<lparr>providers = [AssignedServiceCloudTasks \<mapsto> Some countingProvider]\<rparr>
                  AssignedServiceCloudRunJob)
             = Some (Errorf ''dispatcher: no provider registered for service %s''
                       [ArgService AssignedServiceCloudRunJob])"
    by (simp add: ProviderFor_def)
  show ?thesis
    using h GetJobStatus_lookup_failure_Unknown [OF h, of "()" "''handle/jennah-42''" 0]
    by simp
qed

section \<open>Properties of the status mappings\<close>

subsection \<open>Cloud Tasks\<close>

text \<open>
  C7. The Cloud Tasks status mapper is driven by the response code of the last attempt:
  for every task snapshot, a last attempt whose response code lies in [200, 300) maps to
  Completed, a last attempt with any other response code maps to Failed, a last attempt
  without a response maps to Running, and a task without a last attempt maps to Pending.
\<close>

theorem mapCloudTasksStatus_table:
  "(LastAttempt t = Some a \<and> ResponseStatus a = Some r \<and> 200 \<le> sint (Code r) \<and> sint (Code r) < 300
      \<longrightarrow> mapCloudTasksStatus (Some t) = JobStatusCompleted)
   \<and> (LastAttempt t = Some a \<and> ResponseStatus a = Some r \<and> \<not> (200 \<le> sint (Code r) \<and> sint (Code r) < 300)
      \<longrightarrow> mapCloudTasksStatus (Some t) = JobStatusFailed)
   \<and> (LastAttempt t = Some a \<and> ResponseStatus a = None
      \<longrightarrow> mapCloudTasksStatus (Some t) = JobStatusRunning)
   \<and> (LastAttempt t = None \<longrightarrow> mapCloudTasksStatus (Some t) = JobStatusPending)"
  by (auto simp: mapCloudTasksStatus_def Let_def)

theorem mapCloudTasksStatus_table_witness:
  "mapCloudTasksStatus
     (Some \<lparr>TaskName = ''t1'', LastAttempt = Some \<lparr>ResponseStatus = Some \<lparr>Code = 204\<rparr>\<rparr>\<rparr>)
     = JobStatusCompleted
   \<and> mapCloudTasksStatus
     (Some \<lparr>TaskName = ''t1'', LastAttempt = Some \<lparr>ResponseStatus = Some \<lparr>Code = 503\<rparr>\<rparr>\<rparr>)
     = JobStatusFailed
   \<and> mapCloudTasksStatus
     (Some \<lparr>TaskName = ''t1'', LastAttempt = Some \<lparr>ResponseStatus = None\<rparr>\<rparr>)
     = JobStatusRunning
   \<and> mapCloudTasksStatus (Some \<lparr>TaskName = ''t1'', LastAttempt = None\<rparr>) = JobStatusPending"
  using
    mapCloudTasksStatus_table
      [of "\<lparr>TaskName = ''t1'', LastAttempt = Some \<lparr>ResponseStatus = Some \<lparr>Code = 204\<rparr>\<rparr>\<rparr>"
          "\<lparr>ResponseStatus = Some \<lparr>Code = 204\<rparr>\<rparr>" "\<lparr>Code = 204\<rparr>"]
    mapCloudTasksStatus_table
      [of "\<lparr>TaskName = ''t1'', LastAttempt = Some \<lparr>ResponseStatus = Some \<lparr>Code = 503\<rparr>\<rparr>\<rparr>"
          "\<lparr>ResponseStatus = Some \<lparr>Code = 503\<rparr>\<rparr>" "\<lparr>Code = 503\<rparr>"]
    mapCloudTasksStatus_table
      [of "\<lparr>TaskName = ''t1'', LastAttempt = Some \<lparr>ResponseStatus = None\<rparr>\<rparr>"
          "\<lparr>ResponseStatus = None\<rparr>"]
    mapCloudTasksStatus_table [of "\<lparr>TaskName = ''t1'', LastAttempt = None\<rparr>"]
  by simp

subsection \<open>Cloud Run Jobs\<close>

text \<open>
  The loop returns the status of the first terminal condition of the list, if there is
  one.
\<close>

lemma terminalCondition_find:
  "terminalCondition cs = map_option terminalStatus (find isTerminal cs)"
  by (induction cs) (auto simp: isTerminal_def terminalStatus_def)

text \<open>
  C5, as the code has it. The Cloud Run status mapper checks the terminal conditions
  first: for every execution whose condition list holds a succeeded Completed, Failed or
  Cancelled condition, the mapped status is the status of the first such condition in the
  order of the list, whatever the task counts are; only when there is none, the status
  follows the task counts.
\<close>

theorem mapCloudRunStatus_terminal_first:
  "(find isTerminal (Conditions e) = Some c \<longrightarrow>
      mapCloudRunStatus (Some e) = terminalStatus c
      \<and> mapCloudRunStatus (Some (e\<lparr>RunningCount := r, SucceededCount := s, FailedCount := f\<rparr>))
          = terminalStatus c)
   \<and> (find isTerminal (Conditions e) = None \<longrightarrow> mapCloudRunStatus (Some e) = countStatus e)"
  by (simp add: mapCloudRunStatus_def terminalCondition_find countStatus_def)

theorem mapCloudRunStatus_terminal_first_witness:
  "find isTerminal
      [\<lparr>Type = ''Completed'', State = CONDITION_RECONCILING\<rparr>,
       \<lparr>Type = ''Cancelled'', State = CONDITION_SUCCEEDED\<rparr>,
       \<lparr>Type = ''Failed'', State = CONDITION_SUCCEEDED\<rparr>]
     = Some \<lparr>Type = ''Cancelled'', State = CONDITION_SUCCEEDED\<rparr>
   \<and> mapCloudRunStatus (Some
        \<lparr>ExecutionName = ''e1'',
         Conditions =
           [\<lparr>Type = ''Completed'', State = CONDITION_RECONCILING\<rparr>,
            \<lparr>Type = ''Cancelled'', State = CONDITION_SUCCEEDED\<rparr>,
            \<lparr>Type = ''Failed'', State = CONDITION_SUCCEEDED\<rparr>],
         RunningCount = 3, SucceededCount = 1, FailedCount = 0\<rparr>) = JobStatusCancelled
   \<and> find isTerminal [\<lparr>Type = ''Started'', State = CONDITION_SUCCEEDED\<rparr>] = None
   \<and> mapCloudRunStatus (Some
        \<lparr>ExecutionName = ''e1'',
         Conditions = [\<lparr>Type = ''Started'', State = CONDITION_SUCCEEDED\<rparr>],
         RunningCount = 0, SucceededCount = 0, FailedCount = 0\<rparr>) = JobStatusPending"
  using
    mapCloudRunStatus_terminal_first
      [of "\<lparr>ExecutionName = ''e1'',
            Conditions =
              [\<lparr>Type = ''Completed'', State = CONDITION_RECONCILING\<rparr>,
               \<lparr>Type = ''Cancelled'', State = CONDITION_SUCCEEDED\<rparr>,
               \<lparr>Type = ''Failed'', State = CONDITION_SUCCEEDED\<rparr>],
            RunningCount = 3, SucceededCount = 1, FailedCount = 0\<rparr>"
          "\<lparr>Type = ''Cancelled'', State = CONDITION_SUCCEEDED\<rparr>" 3 1 0]
    mapCloudRunStatus_terminal_first
      [of "\<lparr>ExecutionName = ''e1'',
            Conditions = [\<lparr>Type = ''Started'', State = CONDITION_SUCCEEDED\<rparr>],
            RunningCount = 0, SucceededCount = 0, FailedCount = 0\<rparr>"]
  by (simp add: isTerminal_def terminalStatus_def countStatus_def)

text \<open>
  C5, as stated, fails. The fixed order Completed, Failed, Cancelled is not the order of
  the code: with a succeeded Failed condition listed before a succeeded Completed
  condition, the fixed order gives Completed and the code gives Failed.
\<close>

theorem mapCloudRunStatus_fixed_order_counterexample:
  "mapCloudRunStatus_fixed_order (Some
      \<lparr>ExecutionName = ''e1'',
       Conditions =
         [\<lparr>Type = ''Failed'', State = CONDITION_SUCCEEDED\<rparr>,
          \<lparr>Type = ''Completed'', State = CONDITION_SUCCEEDED\<rparr>],
       RunningCount = 0, SucceededCount = 1, FailedCount = 1\<rparr>) = JobStatusCompleted
   \<and> mapCloudRunStatus (Some
      \<lparr>ExecutionName = ''e1'',
       Conditions =
         [\<lparr>Type = ''Failed'', State = CONDITION_SUCCEEDED\<rparr>,
          \<lparr>Type = ''Completed'', State = CONDITION_SUCCEEDED\<rparr>],
       RunningCount = 0, SucceededCount = 1, FailedCount = 1\<rparr>) = JobStatusFailed"
  by (simp add: mapCloudRunStatus_fixed_order_def mapCloudRunStatus_def succeeded_def)

subsection \<open>Both mappings\<close>

text \<open>
  C6, as the code has it. Each of the two status mappings maps every backend snapshot to
  exactly one status. It returns Unknown only for a missing snapshot. A terminal signal
  wins over running, and running wins over pending: for Cloud Tasks a response code gives
  Completed or Failed, an attempt without response gives Running, no attempt gives
  Pending; for Cloud Run a succeeded terminal condition gives its status, otherwise a
  positive running count gives Running, and all counts at zero give Pending. Between
  several succeeded terminal conditions, the Cloud Run mapping takes the first of the
  list.
\<close>

theorem status_mapping_precedence:
  "(mapCloudTasksStatus task = JobStatusUnknown \<longleftrightarrow> task = None)
   \<and> (mapCloudRunStatus execution = JobStatusUnknown \<longleftrightarrow> execution = None)
   \<and> (LastAttempt t = Some a \<and> ResponseStatus a \<noteq> None
        \<longrightarrow> mapCloudTasksStatus (Some t) = JobStatusCompleted
            \<or> mapCloudTasksStatus (Some t) = JobStatusFailed)
   \<and> (LastAttempt t = Some a \<and> ResponseStatus a = None
        \<longrightarrow> mapCloudTasksStatus (Some t) = JobStatusRunning)
   \<and> (LastAttempt t = None \<longrightarrow> mapCloudTasksStatus (Some t) = JobStatusPending)
   \<and> (find isTerminal (Conditions e) = Some c
        \<longrightarrow> mapCloudRunStatus (Some e) = terminalStatus c)
   \<and> (find isTerminal (Conditions e) = None \<and> 0 < sint (RunningCount e)
        \<longrightarrow> mapCloudRunStatus (Some e) = JobStatusRunning)
   \<and> (find isTerminal (Conditions e) = None
        \<and> RunningCount e = 0 \<and> SucceededCount e = 0 \<and> FailedCount e = 0
        \<longrightarrow> mapCloudRunStatus (Some e) = JobStatusPending)"
proof -
  have tasks: "mapCloudTasksStatus task = JobStatusUnknown \<longleftrightarrow> task = None"
    by (auto simp: mapCloudTasksStatus_def Let_def split: option.splits)
  have run: "mapCloudRunStatus execution = JobStatusUnknown \<longleftrightarrow> execution = None"
    by (auto simp: mapCloudRunStatus_def terminalCondition_find terminalStatus_def
        split: option.splits)
  have rest: "(LastAttempt t = Some a \<and> ResponseStatus a \<noteq> None
        \<longrightarrow> mapCloudTasksStatus (Some t) = JobStatusCompleted
            \<or> mapCloudTasksStatus (Some t) = JobStatusFailed)
   \<and> (LastAttempt t = Some a \<and> ResponseStatus a = None
        \<longrightarrow> mapCloudTasksStatus (Some t) = JobStatusRunning)
   \<and> (LastAttempt t = None \<longrightarrow> mapCloudTasksStatus (Some t) = JobStatusPending)"
    by (auto simp: mapCloudTasksStatus_def Let_def split: if_splits)
  have cond: "(find isTerminal (Conditions e) = Some c
        \<longrightarrow> mapCloudRunStatus (Some e) = terminalStatus c)
   \<and> (find isTerminal (Conditions e) = None \<and> 0 < sint (RunningCount e)
        \<longrightarrow> mapCloudRunStatus (Some e) = JobStatusRunning)
   \<and> (find isTerminal (Conditions e) = None
        \<and> RunningCount e = 0 \<and> SucceededCount e = 0 \<and> FailedCount e = 0
        \<longrightarrow> mapCloudRunStatus (Some e) = JobStatusPending)"
    by (simp add: mapCloudRunStatus_def terminalCondition_find)
  from tasks run rest cond show ?thesis by blast
qed

theorem status_mapping_precedence_witness:
  "(mapCloudTasksStatus
       (Some \<lparr>TaskName = ''t1'', LastAttempt = Some \<lparr>ResponseStatus = Some \<lparr>Code = 500\<rparr>\<rparr>\<rparr>)
       = JobStatusCompleted
     \<or> mapCloudTasksStatus
       (Some \<lparr>TaskName = ''t1'', LastAttempt = Some \<lparr>ResponseStatus = Some \<lparr>Code = 500\<rparr>\<rparr>\<rparr>)
       = JobStatusFailed)
   \<and> mapCloudRunStatus (Some
        \<lparr>ExecutionName = ''e1'',
         Conditions = [\<lparr>Type = ''Failed'', State = CONDITION_SUCCEEDED\<rparr>],
         RunningCount = 2, SucceededCount = 0, FailedCount = 1\<rparr>) = JobStatusFailed
   \<and> mapCloudRunStatus (Some
        \<lparr>ExecutionName = ''e1'', Conditions = [],
         RunningCount = 2, SucceededCount = 0, FailedCount = 0\<rparr>) = JobStatusRunning
   \<and> mapCloudRunStatus (Some
        \<lparr>ExecutionName = ''e1'', Conditions = [],
         RunningCount = 0, SucceededCount = 0, FailedCount = 0\<rparr>) = JobStatusPending"
  using
    status_mapping_precedence
      [where t = "\<lparr>TaskName = ''t1'', LastAttempt = Some \<lparr>ResponseStatus = Some \<lparr>Code = 500\<rparr>\<rparr>\<rparr>"
         and a = "\<lparr>ResponseStatus = Some \<lparr>Code = 500\<rparr>\<rparr>"
         and e = "\<lparr>ExecutionName = ''e1'',
                   Conditions = [\<lparr>Type = ''Failed'', State = CONDITION_SUCCEEDED\<rparr>],
                   RunningCount = 2, SucceededCount = 0, FailedCount = 1\<rparr>"
         and c = "\<lparr>Type = ''Failed'', State = CONDITION_SUCCEEDED\<rparr>"]
    status_mapping_precedence
      [where e = "\<lparr>ExecutionName = ''e1'', Conditions = [],
                   RunningCount = 2, SucceededCount = 0, FailedCount = 0\<rparr>"]
    status_mapping_precedence
      [where e = "\<lparr>ExecutionName = ''e1'', Conditions = [],
                   RunningCount = 0, SucceededCount = 0, FailedCount = 0\<rparr>"]
  by (simp add: isTerminal_def terminalStatus_def)

text \<open>
  C6, as stated, fails. The order terminal failure before terminal success is not the
  order of the code: with a succeeded Completed condition listed before a succeeded
  Failed condition, the Cloud Run mapping gives Completed.
\<close>

theorem status_mapping_precedence_counterexample:
  "succeeded ''Failed''
      [\<lparr>Type = ''Completed'', State = CONDITION_SUCCEEDED\<rparr>,
       \<lparr>Type = ''Failed'', State = CONDITION_SUCCEEDED\<rparr>]
   \<and> mapCloudRunStatus (Some
      \<lparr>ExecutionName = ''e1'',
       Conditions =
         [\<lparr>Type = ''Completed'', State = CONDITION_SUCCEEDED\<rparr>,
          \<lparr>Type = ''Failed'', State = CONDITION_SUCCEEDED\<rparr>],
       RunningCount = 0, SucceededCount = 1, FailedCount = 1\<rparr>) = JobStatusCompleted"
  by (simp add: mapCloudRunStatus_def succeeded_def)

section \<open>Properties of cancellation\<close>

text \<open>
  C8, as the code has it. \<^verbatim>\<open>CancelJob\<close> does not look at the state of the job. For Cloud
  Tasks it returns success exactly when the backend's \<^verbatim>\<open>DeleteTask\<close> succeeds, and
  the backend's error, wrapped, when it fails; the backend is left as \<^verbatim>\<open>DeleteTask\<close>
  leaves it. For Cloud Run it returns success exactly when reading the first execution,
  \<^verbatim>\<open>CancelExecution\<close> and the wait for it all succeed; when one of the three fails it
  returns that call's error, wrapped under the message of the step, and makes no further
  call; the backend is left as the last call made leaves it.
\<close>

theorem CancelJob_follows_backend:
  "(fst (GCPCloudTasksProvider_CancelJob p ctx path w) = None
      \<longleftrightarrow> fst (DeleteTask (client p) ctx path w) = None)
   \<and> (fst (DeleteTask (client p) ctx path w) = Some err \<longrightarrow>
        fst (GCPCloudTasksProvider_CancelJob p ctx path w)
          = Some (Errorf ''failed to delete Cloud Tasks task: %w'' [ArgError err]))
   \<and> snd (GCPCloudTasksProvider_CancelJob p ctx path w) = snd (DeleteTask (client p) ctx path w)
   \<and> (fst (GCPCloudRunProvider_CancelJob q ctx path v) = None
      \<longleftrightarrow> (case Next (ListExecutions (executionClient q) ctx path) v of
             (Inl _, _) \<Rightarrow> False
           | (Inr execution, v1) \<Rightarrow>
               (case CancelExecution (executionClient q) ctx (ExecutionName execution) v1 of
                  (Inl _, _) \<Rightarrow> False
                | (Inr cancelOp, v2) \<Rightarrow>
                    (case CancelExecutionOperation_Wait cancelOp ctx v2 of
                       (Inl _, _) \<Rightarrow> False
                     | (Inr _, _) \<Rightarrow> True))))
   \<and> (Next (ListExecutions (executionClient q) ctx path) v = (Inl err1, v1) \<longrightarrow>
        GCPCloudRunProvider_CancelJob q ctx path v
          = (Some (Errorf ''no executions found for Cloud Run job: %w'' [ArgError err1]), v1))
   \<and> (Next (ListExecutions (executionClient q) ctx path) v = (Inr execution, v1)
        \<and> CancelExecution (executionClient q) ctx (ExecutionName execution) v1 = (Inl err2, v2) \<longrightarrow>
        GCPCloudRunProvider_CancelJob q ctx path v
          = (Some (Errorf ''failed to cancel Cloud Run execution: %w'' [ArgError err2]), v2))
   \<and> (Next (ListExecutions (executionClient q) ctx path) v = (Inr execution, v1)
        \<and> CancelExecution (executionClient q) ctx (ExecutionName execution) v1 = (Inr cancelOp, v2)
        \<and> CancelExecutionOperation_Wait cancelOp ctx v2 = (Inl err3, v3) \<longrightarrow>
        GCPCloudRunProvider_CancelJob q ctx path v
          = (Some (Errorf ''failed waiting for Cloud Run execution cancellation: %w''
                     [ArgError err3]), v3))
   \<and> (Next (ListExecutions (executionClient q) ctx path) v = (Inr execution, v1)
        \<and> CancelExecution (executionClient q) ctx (ExecutionName execution) v1 = (Inr cancelOp, v2)
        \<and> CancelExecutionOperation_Wait cancelOp ctx v2 = (Inr cancelled, v3) \<longrightarrow>
        GCPCloudRunProvider_CancelJob q ctx path v = (None, v3))"
proof -
  have tasks: "(fst (GCPCloudTasksProvider_CancelJob p ctx path w) = None
      \<longleftrightarrow> fst (DeleteTask (client p) ctx path w) = None)
   \<and> (fst (DeleteTask (client p) ctx path w) = Some err \<longrightarrow>
        fst (GCPCloudTasksProvider_CancelJob p ctx path w)
          = Some (Errorf ''failed to delete Cloud Tasks task: %w'' [ArgError err]))
   \<and> snd (GCPCloudTasksProvider_CancelJob p ctx path w) = snd (DeleteTask (client p) ctx path w)"
    by (cases "DeleteTask (client p) ctx path w")
      (auto simp: GCPCloudTasksProvider_CancelJob_def split: option.splits)
  have run: "fst (GCPCloudRunProvider_CancelJob q ctx path v) = None
      \<longleftrightarrow> (case Next (ListExecutions (executionClient q) ctx path) v of
             (Inl _, _) \<Rightarrow> False
           | (Inr execution, v1) \<Rightarrow>
               (case CancelExecution (executionClient q) ctx (ExecutionName execution) v1 of
                  (Inl _, _) \<Rightarrow> False
                | (Inr cancelOp, v2) \<Rightarrow>
                    (case CancelExecutionOperation_Wait cancelOp ctx v2 of
                       (Inl _, _) \<Rightarrow> False
                     | (Inr _, _) \<Rightarrow> True)))"
    by (simp add: GCPCloudRunProvider_CancelJob_def Let_def split: prod.splits sum.splits)
  have steps: "(Next (ListExecutions (executionClient q) ctx path) v = (Inl err1, v1) \<longrightarrow>
        GCPCloudRunProvider_CancelJob q ctx path v
          = (Some (Errorf ''no executions found for Cloud Run job: %w'' [ArgError err1]), v1))
   \<and> (Next (ListExecutions (executionClient q) ctx path) v = (Inr execution, v1)
        \<and> CancelExecution (executionClient q) ctx (ExecutionName execution) v1 = (Inl err2, v2) \<longrightarrow>
        GCPCloudRunProvider_CancelJob q ctx path v
          = (Some (Errorf ''failed to cancel Cloud Run execution: %w'' [ArgError err2]), v2))
   \<and> (Next (ListExecutions (executionClient q) ctx path) v = (Inr execution, v1)
        \<and> CancelExecution (executionClient q) ctx (ExecutionName execution) v1 = (Inr cancelOp, v2)
        \<and> CancelExecutionOperation_Wait cancelOp ctx v2 = (Inl err3, v3) \<longrightarrow>
        GCPCloudRunProvider_CancelJob q ctx path v
          = (Some (Errorf ''failed waiting for Cloud Run execution cancellation: %w''
                     [ArgError err3]), v3))
   \<and> (Next (ListExecutions (executionClient q) ctx path) v = (Inr execution, v1)
        \<and> CancelExecution (executionClient q) ctx (ExecutionName execution) v1 = (Inr cancelOp, v2)
        \<and> CancelExecutionOperation_Wait cancelOp ctx v2 = (Inr cancelled, v3) \<longrightarrow>
        GCPCloudRunProvider_CancelJob q ctx path v = (None, v3))"
    by (simp add: GCPCloudRunProvider_CancelJob_def Let_def)
  from tasks run steps show ?thesis by blast
qed

theorem CancelJob_follows_backend_witness:
  "fst (DeleteTask (client queueProvider) ()
          ''projects/p1/locations/us/queues/jennah-simple/tasks/t1'' [])
     = Some (Opaque ''rpc error: code = NotFound'')
   \<and> fst (GCPCloudTasksProvider_CancelJob queueProvider ()
          ''projects/p1/locations/us/queues/jennah-simple/tasks/t1'' [])
     = Some (Errorf ''failed to delete Cloud Tasks task: %w''
               [ArgError (Opaque ''rpc error: code = NotFound'')])
   \<and> GCPCloudRunProvider_CancelJob strictRunProvider ()
        ''projects/p1/locations/us/jobs/jennah-42'' []
     = (Some (Errorf ''failed to cancel Cloud Run execution: %w''
                [ArgError (Opaque ''rpc error: code = FailedPrecondition'')]), [])
   \<and> GCPCloudRunProvider_CancelJob refusingRunProvider ()
        ''projects/p1/locations/us/jobs/jennah-7'' []
     = (Some (Errorf ''no executions found for Cloud Run job: %w''
                [ArgError (Opaque ''no more items in iterator'')]), [])"
proof -
  have d: "fst (DeleteTask (client queueProvider) ()
                  ''projects/p1/locations/us/queues/jennah-simple/tasks/t1'' [])
             = Some (Opaque ''rpc error: code = NotFound'')"
    by (simp add: queueProvider_def queueClient_def)
  have t: "fst (GCPCloudTasksProvider_CancelJob queueProvider ()
                  ''projects/p1/locations/us/queues/jennah-simple/tasks/t1'' [])
             = Some (Errorf ''failed to delete Cloud Tasks task: %w''
                       [ArgError (Opaque ''rpc error: code = NotFound'')])"
    by (rule CancelJob_follows_backend
        [where p = queueProvider and ctx = "()" and w = "[]"
           and path = "''projects/p1/locations/us/queues/jennah-simple/tasks/t1''"
           and err = "Opaque ''rpc error: code = NotFound''",
         THEN conjunct2, THEN conjunct1, THEN mp, OF d])
  have n: "Next (ListExecutions (executionClient strictRunProvider) ()
                   ''projects/p1/locations/us/jobs/jennah-42'') []
             = (Inr (exampleExecution ''projects/p1/locations/us/jobs/jennah-42''), [])
           \<and> CancelExecution (executionClient strictRunProvider) ()
                (ExecutionName (exampleExecution ''projects/p1/locations/us/jobs/jennah-42'')) []
             = (Inl (Opaque ''rpc error: code = FailedPrecondition''), [])"
    by (simp add: strictRunProvider_def strictExecutionsClient_def)
  have c: "GCPCloudRunProvider_CancelJob strictRunProvider ()
        ''projects/p1/locations/us/jobs/jennah-42'' []
     = (Some (Errorf ''failed to cancel Cloud Run execution: %w''
                [ArgError (Opaque ''rpc error: code = FailedPrecondition'')]), [])"
    by (rule CancelJob_follows_backend
        [where q = strictRunProvider and ctx = "()" and v = "[]"
           and path = "''projects/p1/locations/us/jobs/jennah-42''",
         THEN conjunct2, THEN conjunct2, THEN conjunct2, THEN conjunct2, THEN conjunct2,
         THEN conjunct1, THEN mp, OF n])
  have m: "Next (ListExecutions (executionClient refusingRunProvider) ()
                   ''projects/p1/locations/us/jobs/jennah-7'') []
             = (Inl (Opaque ''no more items in iterator''), [])"
    by (simp add: refusingRunProvider_def exampleExecutionsClient_def)
  have e: "GCPCloudRunProvider_CancelJob refusingRunProvider ()
        ''projects/p1/locations/us/jobs/jennah-7'' []
     = (Some (Errorf ''no executions found for Cloud Run job: %w''
                [ArgError (Opaque ''no more items in iterator'')]), [])"
    by (rule CancelJob_follows_backend
        [where q = refusingRunProvider and ctx = "()" and v = "[]"
           and path = "''projects/p1/locations/us/jobs/jennah-7''",
         THEN conjunct2, THEN conjunct2, THEN conjunct2, THEN conjunct2,
         THEN conjunct1, THEN mp, OF m])
  from d t c e show ?thesis
    by blast
qed

text \<open>
  C8, as stated, fails, for both providers. On a queue that refuses to delete a task it
  no longer holds, cancelling the same task twice in a row succeeds the first time and
  returns an error the second time. On a Cloud Run backend that refuses to cancel an
  execution that is no longer active, cancelling the same job twice in a row does the
  same.
\<close>

theorem CancelJob_twice_counterexample:
  "GCPCloudTasksProvider_CancelJob queueProvider ()
      ''projects/p1/locations/us/queues/jennah-simple/tasks/t1''
      [''projects/p1/locations/us/queues/jennah-simple/tasks/t1'']
     = (None, [])
   \<and> GCPCloudTasksProvider_CancelJob queueProvider ()
      ''projects/p1/locations/us/queues/jennah-simple/tasks/t1'' []
     = (Some (Errorf ''failed to delete Cloud Tasks task: %w''
                [ArgError (Opaque ''rpc error: code = NotFound'')]), [])
   \<and> GCPCloudRunProvider_CancelJob strictRunProvider ()
      ''projects/p1/locations/us/jobs/jennah-42''
      [''projects/p1/locations/us/jobs/jennah-42/executions/e1'']
     = (None, [])
   \<and> GCPCloudRunProvider_CancelJob strictRunProvider ()
      ''projects/p1/locations/us/jobs/jennah-42'' []
     = (Some (Errorf ''failed to cancel Cloud Run execution: %w''
                [ArgError (Opaque ''rpc error: code = FailedPrecondition'')]), [])"
  by (simp add: GCPCloudTasksProvider_CancelJob_def queueProvider_def queueClient_def
      GCPCloudRunProvider_CancelJob_def strictRunProvider_def strictExecutionsClient_def
      exampleExecution_def)

section \<open>Properties of the Cloud Run submission\<close>

text \<open>
  C9, as the code has it. When the job was created and the creation waited for, and
  running it fails, \<^verbatim>\<open>SubmitJob\<close> returns no result and an error that names the failed
  step, "failed to run Cloud Run job", and wraps the backend's error. The error holds
  nothing else: it includes a resource handle only if the format string or the backend's
  error does.
\<close>

theorem SubmitJob_run_failure:
  assumes "CreateJob (jobsClient p) ctx (buildCreateJobRequest p config) w = (Inr createOp, w1)"
    and "CreateJobOperation_Wait createOp ctx w1 = (Inr job, w2)"
    and "RunJob (jobsClient p) ctx (Job_Name job) w2 = (Inl err, w3)"
  shows "GCPCloudRunProvider_SubmitJob p ctx config w
           = ((None, Some (Errorf ''failed to run Cloud Run job: %w'' [ArgError err])), w3)
    \<and> (error_includes handle (Errorf ''failed to run Cloud Run job: %w'' [ArgError err])
         \<longleftrightarrow> sublist handle ''failed to run Cloud Run job: %w'' \<or> error_includes handle err)"
  using assms
  by (simp add: GCPCloudRunProvider_SubmitJob_def Let_def error_includes_def)

theorem SubmitJob_run_failure_witness:
  "GCPCloudRunProvider_SubmitJob refusingRunProvider () exampleConfig []
     = ((None, Some (Errorf ''failed to run Cloud Run job: %w''
                       [ArgError (Opaque ''rpc error: code = Unavailable'')])),
        [''projects/p1/locations/us/jobs/jennah-42''])"
proof -
  obtain createOp where
    a1: "CreateJob (jobsClient refusingRunProvider) ()
            (buildCreateJobRequest refusingRunProvider exampleConfig) [] = (Inr createOp, [])"
    and a2: "CreateJobOperation_Wait createOp () []
            = (Inr ((CreateJobRequest_Job (buildCreateJobRequest refusingRunProvider exampleConfig))
                      \<lparr>Job_Name := ''projects/p1/locations/us/jobs/jennah-42''\<rparr>),
               [''projects/p1/locations/us/jobs/jennah-42''])"
    by (simp add: refusingRunProvider_def refusingJobsClient_def buildCreateJobRequest_def
        exampleConfig_def Let_def)
  have a3: "RunJob (jobsClient refusingRunProvider) ()
              (Job_Name ((CreateJobRequest_Job (buildCreateJobRequest refusingRunProvider exampleConfig))
                      \<lparr>Job_Name := ''projects/p1/locations/us/jobs/jennah-42''\<rparr>))
              [''projects/p1/locations/us/jobs/jennah-42'']
            = (Inl (Opaque ''rpc error: code = Unavailable''),
               [''projects/p1/locations/us/jobs/jennah-42''])"
    by (simp add: refusingRunProvider_def refusingJobsClient_def)
  from SubmitJob_run_failure [OF a1 a2 a3] show ?thesis
    by simp
qed

text \<open>
  C9, as stated, fails. With a backend that creates the job and refuses to run it, the
  job exists afterwards and the error returned does not include its name.
\<close>

theorem SubmitJob_run_failure_counterexample:
  "GCPCloudRunProvider_SubmitJob refusingRunProvider () exampleConfig []
     = ((None, Some (Errorf ''failed to run Cloud Run job: %w''
                       [ArgError (Opaque ''rpc error: code = Unavailable'')])),
        [''projects/p1/locations/us/jobs/jennah-42''])
   \<and> \<not> error_includes ''projects/p1/locations/us/jobs/jennah-42''
          (Errorf ''failed to run Cloud Run job: %w''
             [ArgError (Opaque ''rpc error: code = Unavailable'')])"
  by (simp add: GCPCloudRunProvider_SubmitJob_def refusingRunProvider_def refusingJobsClient_def
      buildCreateJobRequest_def exampleConfig_def Let_def error_includes_def sublist_code)

end
